theory Spec2Isabelle
  imports Main
begin

section \<open>The connection registry of app/websocket\_manager.py\<close>

text \<open>
  \<^verbatim>\<open>ConnectionManager\<close> keeps four dictionaries. They are modelled as maps, the
  Python sets of client ids as HOL sets, and the metadata dictionary stored per
  connection (keys \<^verbatim>\<open>user_id\<close>, \<^verbatim>\<open>room_id\<close>, \<^verbatim>\<open>connected_at\<close>,
  \<^verbatim>\<open>last_active\<close>) as a record. A transport handle is an opaque object; only
  its identity matters here. Readings of \<^verbatim>\<open>datetime.now()\<close> are natural
  numbers handed to the operations by their caller.

  Every method that takes a database session performs its database work after
  its last access to the four dictionaries and never reads them back from the
  database, so the session is left at its default \<^verbatim>\<open>None\<close> throughout.
\<close>

datatype websocket = WebSocket nat

type_synonym datetime = nat

record conn_meta =
  user_id :: "int option"
  room_id :: "int option"
  connected_at :: datetime
  last_active :: datetime

record manager =
  active_connections :: "string \<rightharpoonup> websocket"
  room_connections :: "int \<rightharpoonup> string set"
  user_connections :: "int \<rightharpoonup> string set"
  connection_info :: "string \<rightharpoonup> conn_meta"

text \<open>\<^verbatim>\<open>ConnectionManager.__init__\<close>: four empty dictionaries.\<close>

definition init :: manager where
  "init = \<lparr>active_connections = Map.empty, room_connections = Map.empty,
            user_connections = Map.empty, connection_info = Map.empty\<rparr>"

text \<open>
  The two index updates that the methods spell out inline.
  \<^verbatim>\<open>if k not in idx: idx[k] = set()\<close> followed by \<^verbatim>\<open>idx[k].add(c)\<close>:
\<close>

definition index_add :: "int \<Rightarrow> string \<Rightarrow> (int \<rightharpoonup> string set) \<Rightarrow> (int \<rightharpoonup> string set)" where
  "index_add k c idx = idx(k \<mapsto> insert c (case idx k of None \<Rightarrow> {} | Some S \<Rightarrow> S))"

text \<open>
  \<^verbatim>\<open>if k in idx:\<close> then \<^verbatim>\<open>if c in idx[k]: idx[k].remove(c)\<close> and
  \<^verbatim>\<open>if not idx[k]: idx.pop(k)\<close>, as \<^verbatim>\<open>disconnect\<close> does for both indices:
\<close>

definition index_discard :: "int \<Rightarrow> string \<Rightarrow> (int \<rightharpoonup> string set) \<Rightarrow> (int \<rightharpoonup> string set)" where
  "index_discard k c idx =
     (case idx k of
        None \<Rightarrow> idx
      | Some S \<Rightarrow> if S - {c} = {} then idx(k := None) else idx(k \<mapsto> S - {c}))"

text \<open>
  \<^verbatim>\<open>connect\<close>, from the point where \<^verbatim>\<open>await websocket.accept()\<close> has
  returned (nothing before that point touches the registry). \<open>uuid4\<close> is the
  string \<^verbatim>\<open>str(uuid.uuid4())\<close> would produce; \<open>t1\<close> and \<open>t2\<close> are the two clock
  readings. Python's truth test makes \<^verbatim>\<open>None\<close> and the empty string alike for
  \<^verbatim>\<open>client_id\<close>, and \<^verbatim>\<open>None\<close> and \<open>0\<close> alike for the two integer ids.
\<close>

definition connect ::
  "string \<Rightarrow> datetime \<Rightarrow> datetime \<Rightarrow> websocket \<Rightarrow> string option \<Rightarrow> int option \<Rightarrow> int option
     \<Rightarrow> manager \<Rightarrow> manager \<times> string" where
  "connect uuid4 t1 t2 ws client uid rid s =
     (let cid = (case client of None \<Rightarrow> uuid4 | Some c \<Rightarrow> if c = [] then uuid4 else c);
          s1 = s\<lparr>active_connections := (active_connections s)(cid \<mapsto> ws)\<rparr>;
          s2 = s1\<lparr>connection_info := (connection_info s1)(cid \<mapsto>
                  \<lparr>user_id = uid, room_id = rid, connected_at = t1, last_active = t2\<rparr>)\<rparr>;
          s3 = (case rid of
                  None \<Rightarrow> s2
                | Some r \<Rightarrow> if r = 0 then s2
                           else s2\<lparr>room_connections := index_add r cid (room_connections s2)\<rparr>);
          s4 = (case uid of
                  None \<Rightarrow> s3
                | Some u \<Rightarrow> if u = 0 then s3
                           else s3\<lparr>user_connections := index_add u cid (user_connections s3)\<rparr>)
      in (s4, cid))"

text \<open>
  \<^verbatim>\<open>disconnect\<close>. The method returns \<^verbatim>\<open>None\<close> on every path, so the model
  returns the registry only; the not-found case is the bare \<^verbatim>\<open>return\<close> taken
  when \<^verbatim>\<open>client_id not in self.active_connections\<close>.
\<close>

definition disconnect :: "string \<Rightarrow> manager \<Rightarrow> manager" where
  "disconnect cid s =
     (if cid \<notin> dom (active_connections s) then s
      else
        let uid = (case connection_info s cid of None \<Rightarrow> None | Some m \<Rightarrow> user_id m);
            rid = (case connection_info s cid of None \<Rightarrow> None | Some m \<Rightarrow> room_id m);
            s1 = s\<lparr>active_connections := (active_connections s)(cid := None)\<rparr>;
            s2 = s1\<lparr>connection_info := (connection_info s1)(cid := None)\<rparr>;
            s3 = (case rid of
                    None \<Rightarrow> s2
                  | Some r \<Rightarrow> if r = 0 then s2
                             else s2\<lparr>room_connections := index_discard r cid (room_connections s2)\<rparr>);
            s4 = (case uid of
                    None \<Rightarrow> s3
                  | Some u \<Rightarrow> if u = 0 then s3
                             else s3\<lparr>user_connections := index_discard u cid (user_connections s3)\<rparr>)
        in s4)"

text \<open>\<^verbatim>\<open>join_room\<close>: the new registry and the returned truth value.\<close>

definition join_room :: "string \<Rightarrow> int \<Rightarrow> manager \<Rightarrow> manager \<times> bool" where
  "join_room cid r s =
     (if cid \<notin> dom (active_connections s) then (s, False)
      else
        let s1 = s\<lparr>room_connections := index_add r cid (room_connections s)\<rparr>;
            s2 = (case connection_info s1 cid of
                    None \<Rightarrow> s1
                  | Some m \<Rightarrow> s1\<lparr>connection_info := (connection_info s1)(cid \<mapsto> m\<lparr>room_id := Some r\<rparr>)\<rparr>)
        in (s2, True))"

text \<open>\<^verbatim>\<open>leave_room\<close>.\<close>

definition leave_room :: "string \<Rightarrow> int \<Rightarrow> manager \<Rightarrow> manager \<times> bool" where
  "leave_room cid r s =
     (case room_connections s r of
        None \<Rightarrow> (s, False)
      | Some S \<Rightarrow>
          if cid \<notin> S then (s, False)
          else
            let s1 = s\<lparr>room_connections :=
                       (if S - {cid} = {} then (room_connections s)(r := None)
                        else (room_connections s)(r \<mapsto> S - {cid}))\<rparr>;
                s2 = (case connection_info s1 cid of
                        None \<Rightarrow> s1
                      | Some m \<Rightarrow> s1\<lparr>connection_info := (connection_info s1)(cid \<mapsto> m\<lparr>room_id := None\<rparr>)\<rparr>)
            in (s2, True))"

text \<open>
  \<^verbatim>\<open>get_connections_info\<close> builds a \<^verbatim>\<open>WSConnectionInfo\<close>. Its second field
  is called \<^verbatim>\<open>active_connections\<close> in the schema; the record names it
  \<open>n_active_connections\<close> to keep it apart from the manager's dictionary. The
  method assigns to nothing, so the registry is returned as it was received.
\<close>

record WSConnectionInfo =
  total_connections :: nat
  n_active_connections :: nat
  connections_by_room :: "int \<rightharpoonup> nat"

definition get_connections_info :: "manager \<Rightarrow> manager \<times> WSConnectionInfo" where
  "get_connections_info s =
     (s, \<lparr>total_connections = card (dom (connection_info s)),
          n_active_connections = card (dom (active_connections s)),
          connections_by_room = (\<lambda>r. map_option card (room_connections s r))\<rparr>)"

subsection \<open>Broadcasting to a room\<close>

text \<open>
  What \<^verbatim>\<open>await websocket.send_text(json.dumps(message))\<close> does for the message
  at hand depends on the handle: it returns, it raises \<^verbatim>\<open>WebSocketDisconnect\<close>
  (the one exception class the loop catches), or it raises something else,
  which leaves \<^verbatim>\<open>broadcast_to_room\<close> at once.
\<close>

datatype send_outcome = Sent | RaisedDisconnect | RaisedOther

datatype 'a completion = Returns 'a | Raises 'a

text \<open>
  The loop state: the registry, the clients the payload went out to (in order;
  the only trace a send leaves), and the local list \<^verbatim>\<open>disconnected\<close>.
\<close>

record sweep =
  mgr :: manager
  delivered :: "string list"
  disconnected :: "string list"

text \<open>Refreshing \<^verbatim>\<open>last_active\<close>, guarded by \<^verbatim>\<open>if client_id in self.connection_info\<close>.\<close>

definition touch :: "string \<Rightarrow> datetime \<Rightarrow> manager \<Rightarrow> manager" where
  "touch cid t s =
     (case connection_info s cid of
        None \<Rightarrow> s
      | Some m \<Rightarrow> s\<lparr>connection_info := (connection_info s)(cid \<mapsto> m\<lparr>last_active := t\<rparr>)\<rparr>)"

text \<open>
  The \<^verbatim>\<open>for client_id in self.room_connections[room_id]\<close> loop over the
  members in the order the set yields them. \<open>now c\<close> is the clock reading taken
  after the send to \<open>c\<close>.
\<close>

fun sweep_loop ::
  "(websocket \<Rightarrow> send_outcome) \<Rightarrow> (string \<Rightarrow> datetime) \<Rightarrow> string list \<Rightarrow> sweep \<Rightarrow> sweep completion" where
  "sweep_loop send now [] w = Returns w"
| "sweep_loop send now (c # cs) w =
     (case active_connections (mgr w) c of
        None \<Rightarrow> sweep_loop send now cs w
      | Some ws \<Rightarrow>
          (case send ws of
             Sent \<Rightarrow> sweep_loop send now cs
                       (w\<lparr>mgr := touch c (now c) (mgr w), delivered := delivered w @ [c]\<rparr>)
           | RaisedDisconnect \<Rightarrow> sweep_loop send now cs (w\<lparr>disconnected := disconnected w @ [c]\<rparr>)
           | RaisedOther \<Rightarrow> Raises w))"

text \<open>The clean-up loop \<^verbatim>\<open>for client_id in disconnected: self.disconnect(client_id)\<close>.\<close>

fun disconnect_all :: "string list \<Rightarrow> manager \<Rightarrow> manager" where
  "disconnect_all [] s = s"
| "disconnect_all (c # cs) s = disconnect_all cs (disconnect c s)"

text \<open>
  \<^verbatim>\<open>broadcast_to_room\<close>. Python fixes no iteration order for a set, so the
  order is a parameter: \<open>iter S\<close> lists the members of \<open>S\<close> as the loop meets
  them. The result is the registry afterwards together with the clients the
  payload was sent to, tagged by whether the call returned or an exception left
  it.
\<close>

definition broadcast_to_room ::
  "(websocket \<Rightarrow> send_outcome) \<Rightarrow> (string \<Rightarrow> datetime) \<Rightarrow> (string set \<Rightarrow> string list) \<Rightarrow> int
     \<Rightarrow> manager \<Rightarrow> (manager \<times> string list) completion" where
  "broadcast_to_room send now iter r s =
     (case room_connections s r of
        None \<Rightarrow> Returns (s, [])
      | Some S \<Rightarrow>
          (case sweep_loop send now (iter S) \<lparr>mgr = s, delivered = [], disconnected = []\<rparr> of
             Raises w \<Rightarrow> Raises (mgr w, delivered w)
           | Returns w \<Rightarrow> Returns (disconnect_all (disconnected w) (mgr w), delivered w)))"

subsection \<open>Sequences of lifecycle operations\<close>

datatype op =
    Connect string datetime datetime websocket "string option" "int option" "int option"
  | Disconnect string
  | JoinRoom string int
  | LeaveRoom string int

fun apply_op :: "op \<Rightarrow> manager \<Rightarrow> manager" where
  "apply_op (Connect uuid4 t1 t2 ws client uid rid) s = fst (connect uuid4 t1 t2 ws client uid rid s)"
| "apply_op (Disconnect cid) s = disconnect cid s"
| "apply_op (JoinRoom cid r) s = fst (join_room cid r s)"
| "apply_op (LeaveRoom cid r) s = fst (leave_room cid r s)"

fun run :: "op list \<Rightarrow> manager \<Rightarrow> manager" where
  "run [] s = s"
| "run (x # xs) s = run xs (apply_op x s)"

text \<open>
  The class keeps no count of past registrations. The number of connections
  ever registered is therefore read off the history of calls: it is the number
  of \<^verbatim>\<open>connect\<close> calls made so far.
\<close>

fun registered_ever :: "op list \<Rightarrow> nat" where
  "registered_ever [] = 0"
| "registered_ever (Connect uuid4 t1 t2 ws client uid rid # xs) = Suc (registered_ever xs)"
| "registered_ever (x # xs) = registered_ever xs"

section \<open>Properties\<close>


subsection \<open>Removing a connection\<close>




subsection \<open>Leaving and joining rooms\<close>

text \<open>
  Claim C6. When the client id is not a member of the room's entry in
  \<^verbatim>\<open>room_connections\<close>, or the room has no entry at all, \<^verbatim>\<open>leave_room\<close>
  returns \<^verbatim>\<open>False\<close> and the registry is unchanged.
\<close>

theorem leave_room_not_member:
  "(case room_connections s r of None \<Rightarrow> True | Some S \<Rightarrow> cid \<notin> S) \<Longrightarrow>
   leave_room cid r s = (s, False)"
  by (auto simp: leave_room_def split: option.splits)

theorem leave_room_not_member_witness:
  "leave_room ''c1'' 3 init = (init, False) \<and>
   leave_room ''c2'' 4 (run [Connect ''c1'' 0 0 (WebSocket 1) None None (Some 4)] init)
     = (run [Connect ''c1'' 0 0 (WebSocket 1) None None (Some 4)] init, False)"
  using leave_room_not_member [where s = init and r = 3 and cid = "''c1''"]
    leave_room_not_member
      [where s = "run [Connect ''c1'' 0 0 (WebSocket 1) None None (Some 4)] init" and r = 4 and cid = "''c2''"]
  by (simp add: init_def connect_def Let_def index_add_def)

text \<open>
  Claim C2, as the code has it. \<^verbatim>\<open>join_room\<close> only ever adds: for a connected
  client id, \<^verbatim>\<open>join_room(cid, 5)\<close> followed by \<^verbatim>\<open>join_room(cid, 7)\<close> both
  return \<^verbatim>\<open>True\<close> and leave the id a member of room 5 and of room 7 (every
  other entry of \<^verbatim>\<open>room_connections\<close> is untouched); only the \<^verbatim>\<open>room_id\<close>
  recorded in \<^verbatim>\<open>connection_info\<close>, when the id has a record, becomes 7.
\<close>

theorem join_room_keeps_previous_room:
  assumes "active_connections s cid = Some ws"
  shows "\<exists>s1 s2. join_room cid 5 s = (s1, True) \<and> join_room cid 7 s1 = (s2, True) \<and>
     room_connections s2 =
       (room_connections s)
         (5 \<mapsto> insert cid (case room_connections s 5 of None \<Rightarrow> {} | Some S \<Rightarrow> S),
          7 \<mapsto> insert cid (case room_connections s 7 of None \<Rightarrow> {} | Some S \<Rightarrow> S)) \<and>
     connection_info s2 =
       (case connection_info s cid of
          None \<Rightarrow> connection_info s
        | Some m \<Rightarrow> (connection_info s)(cid \<mapsto> m\<lparr>room_id := Some 7\<rparr>)) \<and>
     active_connections s2 = active_connections s \<and>
     user_connections s2 = user_connections s"
  using assms
  by (auto simp: join_room_def Let_def index_add_def dom_def split: option.splits)

theorem join_room_keeps_previous_room_witness:
  "\<exists>s1 s2.
     join_room ''c1'' 5 (run [Connect ''c1'' 0 0 (WebSocket 1) None None None] init) = (s1, True) \<and>
     join_room ''c1'' 7 s1 = (s2, True) \<and>
     room_connections s2 5 = Some {''c1''} \<and>
     room_connections s2 7 = Some {''c1''} \<and>
     map_option room_id (connection_info s2 ''c1'') = Some (Some 7)"
  using join_room_keeps_previous_room
    [where s = "run [Connect ''c1'' 0 0 (WebSocket 1) None None None] init"
       and cid = "''c1''" and ws = "WebSocket 1"]
  by (auto simp: init_def connect_def Let_def)

text \<open>
  The claim as written fails: after joining room 5 and then room 7, room 5's
  member set still holds the client.
\<close>

theorem join_room_moves_counterexample:
  "room_connections
     (run [Connect ''c1'' 0 0 (WebSocket 1) None None None, JoinRoom ''c1'' 5, JoinRoom ''c1'' 7] init) 5
   = Some {''c1''}"
  by (simp add: init_def connect_def join_room_def Let_def index_add_def dom_def)

subsection \<open>The handle map and the metadata map\<close>

lemma connect_keys:
  "connect uuid4 t1 t2 ws client uid rid s = (s', cid) \<Longrightarrow>
     dom (active_connections s') = insert cid (dom (active_connections s)) \<and>
     dom (connection_info s') = insert cid (dom (connection_info s))"
  by (auto simp: connect_def Let_def split: option.splits if_splits)

lemma disconnect_keys:
  "dom (active_connections (disconnect cid s)) = dom (active_connections s) - {cid}"
  "cid \<in> dom (active_connections s) \<Longrightarrow>
     dom (connection_info (disconnect cid s)) = dom (connection_info s) - {cid}"
  by (auto simp: disconnect_def Let_def split: option.splits if_splits)

lemma join_room_keys:
  "dom (active_connections (fst (join_room cid r s))) = dom (active_connections s)"
  "dom (connection_info (fst (join_room cid r s))) = dom (connection_info s)"
  by (auto simp: join_room_def Let_def split: option.splits if_splits)

lemma leave_room_keys:
  "dom (active_connections (fst (leave_room cid r s))) = dom (active_connections s)"
  "dom (connection_info (fst (leave_room cid r s))) = dom (connection_info s)"
  by (auto simp: leave_room_def Let_def split: option.splits if_splits)

lemma apply_op_keys:
  assumes "dom (active_connections s) = dom (connection_info s)"
  shows "dom (active_connections (apply_op x s)) = dom (connection_info (apply_op x s))"
proof (cases x)
  case (Connect uuid4 t1 t2 ws client uid rid)
  obtain s' cid where c: "connect uuid4 t1 t2 ws client uid rid s = (s', cid)"
    by (cases "connect uuid4 t1 t2 ws client uid rid s")
  from connect_keys [OF c] assms Connect c show ?thesis by simp
next
  case (Disconnect cid)
  show ?thesis
  proof (cases "cid \<in> dom (active_connections s)")
    case True
    with disconnect_keys [of cid s] assms Disconnect show ?thesis by simp
  next
    case False
    with assms Disconnect show ?thesis by (simp add: disconnect_def)
  qed
next
  case (JoinRoom cid r)
  with assms show ?thesis by (simp add: join_room_keys)
next
  case (LeaveRoom cid r)
  with assms show ?thesis by (simp add: leave_room_keys)
qed

lemma run_keys:
  "dom (active_connections s) = dom (connection_info s) \<Longrightarrow>
   dom (active_connections (run ops s)) = dom (connection_info (run ops s))"
  by (induction ops arbitrary: s) (simp_all add: apply_op_keys)

text \<open>
  Claim C5. \<^verbatim>\<open>active_connections\<close> and \<^verbatim>\<open>connection_info\<close> have the same
  keys: each of \<^verbatim>\<open>connect\<close>, \<^verbatim>\<open>disconnect\<close>, \<^verbatim>\<open>join_room\<close> and
  \<^verbatim>\<open>leave_room\<close> keeps the two key sets equal, and hence they are equal after
  every sequence of these operations on a fresh manager. A handle exists for an
  id exactly when its metadata record does.
\<close>

theorem handles_and_records_share_keys:
  "(dom (active_connections s) = dom (connection_info s) \<longrightarrow>
      dom (active_connections (apply_op x s)) = dom (connection_info (apply_op x s))) \<and>
   dom (active_connections (run ops init)) = dom (connection_info (run ops init))"
  using apply_op_keys [of s x] run_keys [of init ops] by (simp add: init_def)

theorem handles_and_records_share_keys_witness:
  "dom (active_connections (apply_op (Disconnect ''c1'') (run [Connect ''c1'' 0 0 (WebSocket 1) None None None] init))) =
   dom (connection_info (apply_op (Disconnect ''c1'') (run [Connect ''c1'' 0 0 (WebSocket 1) None None None] init)))"
proof -
  have "dom (active_connections (run [Connect ''c1'' 0 0 (WebSocket 1) None None None] init)) = dom (connection_info (run [Connect ''c1'' 0 0 (WebSocket 1) None None None] init))"
    by (simp add: init_def connect_def Let_def)
  with handles_and_records_share_keys
    [where s = "run [Connect ''c1'' 0 0 (WebSocket 1) None None None] init" and x = "Disconnect ''c1''" and ops = "[]"]
  show ?thesis by blast
qed

subsection \<open>The diagnostic snapshot\<close>

lemma apply_op_card:
  assumes "finite (dom (active_connections s))"
  shows "finite (dom (active_connections (apply_op x s))) \<and>
         card (dom (active_connections (apply_op x s))) \<le> card (dom (active_connections s)) + registered_ever [x]"
proof (cases x)
  case (Connect uuid4 t1 t2 ws client uid rid)
  obtain s' cid where c: "connect uuid4 t1 t2 ws client uid rid s = (s', cid)"
    by (cases "connect uuid4 t1 t2 ws client uid rid s")
  from connect_keys [OF c] have "dom (active_connections s') = insert cid (dom (active_connections s))" by simp
  with assms Connect c show ?thesis by (simp add: card_insert_le_m1 card_insert_if)
next
  case (Disconnect cid)
  with assms show ?thesis by (simp add: disconnect_keys card_Diff1_le)
next
  case (JoinRoom cid r)
  with assms show ?thesis by (simp add: join_room_keys)
next
  case (LeaveRoom cid r)
  with assms show ?thesis by (simp add: leave_room_keys)
qed

lemma registered_ever_Cons: "registered_ever (x # xs) = registered_ever [x] + registered_ever xs"
  by (cases x) simp_all

lemma run_card:
  "finite (dom (active_connections s)) \<Longrightarrow>
   finite (dom (active_connections (run ops s))) \<and>
   card (dom (active_connections (run ops s))) \<le> card (dom (active_connections s)) + registered_ever ops"
proof (induction ops arbitrary: s)
  case Nil
  then show ?case by simp
next
  case (Cons x xs)
  from apply_op_card [OF Cons.prems, of x]
  have f: "finite (dom (active_connections (apply_op x s)))"
    and c: "card (dom (active_connections (apply_op x s))) \<le> card (dom (active_connections s)) + registered_ever [x]"
    by simp_all
  from Cons.IH [OF f] c registered_ever_Cons [of x xs] show ?case by simp
qed

text \<open>
  Claim C7, as the code has it. \<^verbatim>\<open>get_connections_info\<close> changes nothing and
  returns, for the registry reached by any sequence of operations:
  \<^verbatim>\<open>total_connections\<close>, the number of metadata records held now (not the
  number of connections ever registered: a record is deleted on disconnect and
  the class keeps no counter), which is the same number as
  \<^verbatim>\<open>active_connections\<close>, the number of live handles, and is at most the
  number of \<^verbatim>\<open>connect\<close> calls made; and \<^verbatim>\<open>connections_by_room\<close>, which
  gives every room of \<^verbatim>\<open>room_connections\<close> the size of its member set and
  has no other keys.
\<close>

theorem snapshot_counts_current:
  "get_connections_info (run ops init) =
     (run ops init,
      \<lparr>total_connections = card (dom (connection_info (run ops init))),
       n_active_connections = card (dom (active_connections (run ops init))),
       connections_by_room = map_option card \<circ> room_connections (run ops init)\<rparr>)
   \<and> card (dom (connection_info (run ops init))) = card (dom (active_connections (run ops init)))
   \<and> card (dom (connection_info (run ops init))) \<le> registered_ever ops"
proof -
  have "dom (active_connections (run ops init)) = dom (connection_info (run ops init))"
    using run_keys [of init ops] by (simp add: init_def)
  moreover have "card (dom (active_connections (run ops init))) \<le> registered_ever ops"
    using run_card [of init ops] by (simp add: init_def)
  ultimately show ?thesis by (simp add: get_connections_info_def comp_def)
qed

text \<open>
  The claim as written fails: after one connection has been registered and has
  disconnected, \<^verbatim>\<open>total_connections\<close> is 0 although one connection was
  registered.
\<close>

theorem snapshot_total_ever_counterexample:
  "total_connections (snd (get_connections_info
      (run [Connect ''c1'' 0 0 (WebSocket 1) None None None, Disconnect ''c1''] init))) = 0
   \<and> registered_ever [Connect ''c1'' 0 0 (WebSocket 1) None None None, Disconnect ''c1''] = 1"
  by (simp add: get_connections_info_def connect_def disconnect_def init_def Let_def)

subsection \<open>Broadcasting to a room\<close>

lemma touch_active [simp]: "active_connections (touch c t s) = active_connections s"
  by (simp add: touch_def split: option.splits)

lemma touch_rooms [simp]: "room_connections (touch c t s) = room_connections s"
  by (simp add: touch_def split: option.splits)

lemma touch_users [simp]: "user_connections (touch c t s) = user_connections s"
  by (simp add: touch_def split: option.splits)

lemma touch_all_active [simp]:
  "active_connections (foldl (\<lambda>m c. touch c (now c) m) s cs) = active_connections s"
  by (induction cs arbitrary: s) simp_all






text \<open>
  Claim C8. A client connects, joins room 1 and is its only member, then
  disconnects without leaving: room 1 is pruned from \<^verbatim>\<open>room_connections\<close>,
  and a broadcast to room 1 afterwards sends the payload to nobody and returns
  the registry unchanged.
\<close>

theorem sole_member_disconnect_prunes_room:
  assumes "connect uuid4 t1 t2 ws client uid rid s = (s1, cid)"
    and "join_room cid 1 s1 = (s2, ok)"
    and "room_connections s2 1 = Some {cid}"
  shows "ok \<and> room_connections (disconnect cid s2) 1 = None \<and>
         broadcast_to_room send now iter 1 (disconnect cid s2) = Returns (disconnect cid s2, [])"
proof -
  have a1: "active_connections s1 cid \<noteq> None" and i1: "connection_info s1 cid \<noteq> None"
    using assms(1) by (auto simp: connect_def Let_def split: option.splits if_splits)
  then obtain m where m: "connection_info s1 cid = Some m" by auto
  from a1 assms(2) m have ok: ok
    and a2: "active_connections s2 cid \<noteq> None"
    and i2: "connection_info s2 cid = Some (m\<lparr>room_id := Some 1\<rparr>)"
    by (auto simp: join_room_def Let_def dom_def)
  have pruned: "room_connections (disconnect cid s2) 1 = None"
    using a2 i2 assms(3)
    by (auto simp: disconnect_def Let_def dom_def index_discard_def split: option.splits)
  then have "broadcast_to_room send now iter 1 (disconnect cid s2) = Returns (disconnect cid s2, [])"
    by (simp add: broadcast_to_room_def)
  with ok pruned show ?thesis by simp
qed

theorem sole_member_disconnect_prunes_room_witness:
  "room_connections
     (run [Connect ''a1'' 0 0 (WebSocket 1) None None None, JoinRoom ''a1'' 1, Disconnect ''a1''] init) 1
     = None \<and>
   broadcast_to_room (\<lambda>w. Sent) (\<lambda>c. 9) (\<lambda>S. []) 1
     (run [Connect ''a1'' 0 0 (WebSocket 1) None None None, JoinRoom ''a1'' 1, Disconnect ''a1''] init)
     = Returns
        (run [Connect ''a1'' 0 0 (WebSocket 1) None None None, JoinRoom ''a1'' 1, Disconnect ''a1''] init, [])"
proof -
  have c: "connect ''a1'' 0 0 (WebSocket 1) None None None init
             = (fst (connect ''a1'' 0 0 (WebSocket 1) None None None init), ''a1'')"
    by (simp add: connect_def Let_def)
  have j: "join_room ''a1'' 1 (fst (connect ''a1'' 0 0 (WebSocket 1) None None None init))
             = (fst (join_room ''a1'' 1 (fst (connect ''a1'' 0 0 (WebSocket 1) None None None init))), True)"
    by (simp add: join_room_def connect_def init_def Let_def dom_def)
  have m: "room_connections
             (fst (join_room ''a1'' 1 (fst (connect ''a1'' 0 0 (WebSocket 1) None None None init)))) 1
             = Some {''a1''}"
    by (simp add: join_room_def connect_def init_def Let_def dom_def index_add_def)
  from sole_member_disconnect_prunes_room [OF c j m, of "\<lambda>w. Sent" "\<lambda>c. 9" "\<lambda>S. []"]
  show ?thesis by simp
qed

subsection \<open>Registering an id that is already registered\<close>

text \<open>
  \<^verbatim>\<open>connect\<close> falls back on the generated id when it is handed an empty
  \<^verbatim>\<open>client_id\<close>, and \<^verbatim>\<open>str(uuid.uuid4())\<close> is never empty: the empty string
  is never a key of \<^verbatim>\<open>active_connections\<close>.
\<close>

lemma apply_op_empty_id:
  assumes "[] \<notin> dom (active_connections s)"
    and "case x of Connect uuid4 t1 t2 ws client uid rid \<Rightarrow> uuid4 \<noteq> [] | _ \<Rightarrow> True"
  shows "[] \<notin> dom (active_connections (apply_op x s))"
  using assms
  by (cases x)
     (auto simp: connect_def disconnect_def join_room_def leave_room_def Let_def
           split: option.splits if_splits)

lemma run_empty_id:
  "[] \<notin> dom (active_connections s) \<Longrightarrow>
   \<forall>x \<in> set ops. (case x of Connect uuid4 t1 t2 ws client uid rid \<Rightarrow> uuid4 \<noteq> [] | _ \<Rightarrow> True) \<Longrightarrow>
   [] \<notin> dom (active_connections (run ops s))"
proof (induction ops arbitrary: s)
  case Nil
  then show ?case by simp
next
  case (Cons x xs)
  have "[] \<notin> dom (active_connections (apply_op x s))"
    using Cons.prems by (intro apply_op_empty_id) simp_all
  with Cons show ?case by simp
qed

lemma empty_id_never_registered:
  "\<forall>x \<in> set ops. (case x of Connect uuid4 t1 t2 ws client uid rid \<Rightarrow> uuid4 \<noteq> [] | _ \<Rightarrow> True) \<Longrightarrow>
   active_connections (run ops init) [] = None"
  using run_empty_id [of init ops] by (auto simp: init_def)

text \<open>
  Claim C10. Called with a \<^verbatim>\<open>client_id\<close> that is already a key of
  \<^verbatim>\<open>active_connections\<close>, \<^verbatim>\<open>connect\<close> returns that same id (no fresh one is
  generated), replaces the handle and the metadata record stored under it, and
  removes nothing from \<^verbatim>\<open>room_connections\<close> or \<^verbatim>\<open>user_connections\<close>: every
  member set of the earlier registration is still there, at most enlarged by
  the new registration's own room and user. (The id is taken to be non-empty:
  \<^verbatim>\<open>connect\<close> treats an empty \<^verbatim>\<open>client_id\<close> as absent, so the empty string
  is never registered, see \<open>empty_id_never_registered\<close>.)
\<close>

theorem connect_existing_id_overwrites:
  assumes "active_connections s cid = Some old" and "cid \<noteq> []"
  shows "\<exists>s'. connect uuid4 t1 t2 ws (Some cid) uid rid s = (s', cid) \<and>
         active_connections s' = (active_connections s)(cid \<mapsto> ws) \<and>
         connection_info s' = (connection_info s)(cid \<mapsto>
             \<lparr>user_id = uid, room_id = rid, connected_at = t1, last_active = t2\<rparr>) \<and>
         (\<forall>r S. room_connections s r = Some S \<longrightarrow> (\<exists>S'. room_connections s' r = Some S' \<and> S \<subseteq> S')) \<and>
         (\<forall>u S. user_connections s u = Some S \<longrightarrow> (\<exists>S'. user_connections s' u = Some S' \<and> S \<subseteq> S'))"
  using assms by (auto simp: connect_def Let_def index_add_def split: option.splits)

theorem connect_existing_id_overwrites_witness:
  "\<exists>s'. connect ''u2'' 5 6 (WebSocket 2) (Some ''c1'') (Some 8) None
           (run [Connect ''c1'' 0 0 (WebSocket 1) None (Some 3) (Some 4)] init) = (s', ''c1'') \<and>
        active_connections s' = [''c1'' \<mapsto> WebSocket 2] \<and>
        room_connections s' 4 = Some {''c1''} \<and>
        user_connections s' 3 = Some {''c1''} \<and>
        user_connections s' 8 = Some {''c1''}"
  using connect_existing_id_overwrites
    [where s = "run [Connect ''c1'' 0 0 (WebSocket 1) None (Some 3) (Some 4)] init"
       and cid = "''c1''" and old = "WebSocket 1" and ws = "WebSocket 2" and ?uuid4.0 = "''u2''"
       and ?t1.0 = 5 and ?t2.0 = 6 and uid = "Some 8" and rid = None]
  by (auto simp: init_def connect_def Let_def index_add_def)

subsection \<open>The indices against the handle map\<close>

text \<open>
  No operation leaves an empty member set behind in \<^verbatim>\<open>room_connections\<close> or
  \<^verbatim>\<open>user_connections\<close>: \<^verbatim>\<open>connect\<close> and \<^verbatim>\<open>join_room\<close> add to the set
  they create, \<^verbatim>\<open>leave_room\<close> and \<^verbatim>\<open>disconnect\<close> pop an entry they
  emptied.
\<close>

lemma index_add_nonempty: "{} \<notin> ran idx \<Longrightarrow> {} \<notin> ran (index_add k c idx)"
  by (auto simp: index_add_def ran_def split: if_splits)

lemma index_discard_nonempty: "{} \<notin> ran idx \<Longrightarrow> {} \<notin> ran (index_discard k c idx)"
  by (auto simp: index_discard_def ran_def split: option.splits if_splits)

lemma apply_op_nonempty:
  assumes "{} \<notin> ran (room_connections s) \<and> {} \<notin> ran (user_connections s)"
  shows "{} \<notin> ran (room_connections (apply_op x s)) \<and> {} \<notin> ran (user_connections (apply_op x s))"
proof (cases x)
  case (Connect uuid4 t1 t2 ws client uid rid)
  with assms show ?thesis
    by (auto simp: connect_def Let_def dest: index_add_nonempty split: option.splits)
next
  case (Disconnect cid)
  with assms show ?thesis
    by (auto simp: disconnect_def Let_def dest: index_discard_nonempty split: option.splits)
next
  case (JoinRoom cid r)
  with assms show ?thesis
    by (auto simp: join_room_def Let_def dest: index_add_nonempty split: option.splits)
next
  case (LeaveRoom cid r)
  with assms show ?thesis
    by (auto simp: leave_room_def Let_def ran_def split: option.splits if_splits)
qed

lemma run_nonempty:
  "{} \<notin> ran (room_connections s) \<and> {} \<notin> ran (user_connections s) \<Longrightarrow>
   {} \<notin> ran (room_connections (run ops s)) \<and> {} \<notin> ran (user_connections (run ops s))"
proof (induction ops arbitrary: s)
  case Nil
  then show ?case by simp
next
  case (Cons x xs)
  from Cons.IH [OF apply_op_nonempty [OF Cons.prems]] show ?case by simp
qed

lemma no_empty_member_sets:
  "{} \<notin> ran (room_connections (run ops init)) \<and> {} \<notin> ran (user_connections (run ops init))"
  using run_nonempty [of init ops] by (simp add: init_def)

text \<open>
  Claim C1 asks, for every sequence of \<^verbatim>\<open>connect\<close>, \<^verbatim>\<open>join_room\<close>,
  \<^verbatim>\<open>leave_room\<close> and \<^verbatim>\<open>disconnect\<close> on a fresh manager, that every id in a
  member set of \<^verbatim>\<open>room_connections\<close> or \<^verbatim>\<open>user_connections\<close> is a key of
  \<^verbatim>\<open>active_connections\<close>, and that no member set is empty. The second half
  is \<open>no_empty_member_sets\<close>. The first half is not what the code does:
  \<^verbatim>\<open>disconnect\<close> clears the id from the one room its metadata names, and
  \<^verbatim>\<open>join_room\<close> overwrites that name. A client that connects, joins room 5,
  joins room 7 and disconnects is gone from every dictionary but one: room 5
  still lists it.
\<close>

theorem disconnect_leaves_member_in_earlier_room:
  "run [Connect ''c1'' 0 0 (WebSocket 1) None None None, JoinRoom ''c1'' 5, JoinRoom ''c1'' 7,
        Disconnect ''c1''] init
    = \<lparr>active_connections = Map.empty, room_connections = [5 \<mapsto> {''c1''}],
       user_connections = Map.empty, connection_info = Map.empty\<rparr>"
  by (simp add: connect_def join_room_def disconnect_def init_def Let_def index_add_def
        index_discard_def dom_def)

end
